theory Spec2Isabelle
  imports Main "HOL-Library.Sublist"
begin

section \<open>Values exchanged with the generation model\<close>

text \<open>
  The field values of a function call are untyped Python values. The orchestrator only
  passes them on, tests one of them for truth and interpolates it into a prompt.
  A dict is an association list in insertion order with distinct keys; \<open>map_of\<close> is
  subscripting, and \<open>None\<close> from \<open>map_of\<close> is Python's \<open>KeyError\<close>.
\<close>

datatype pyval =
    PNone
  | PStr string
  | PBool bool
  | PInt int
  | PList "pyval list"
  | PDict "(string \<times> pyval) list"

type_synonym kwargs = "(string \<times> pyval) list"

text \<open>Python's truth value of an object, as tested by \<open>if\<close> and \<open>and\<close>.\<close>

fun truthy :: "pyval \<Rightarrow> bool" where
  "truthy PNone = False"
| "truthy (PStr s) = (s \<noteq> [])"
| "truthy (PBool b) = b"
| "truthy (PInt i) = (i \<noteq> 0)"
| "truthy (PList xs) = (xs \<noteq> [])"
| "truthy (PDict kvs) = (kvs \<noteq> [])"

text \<open>
  Interpolation of a value into an f-string. A \<open>str\<close> is inserted as it is; how Python
  renders any other value (\<open>str()\<close> of a list, a number, ...) is the parameter \<open>fmt\<close>.
\<close>

fun format_value :: "(pyval \<Rightarrow> string) \<Rightarrow> pyval \<Rightarrow> string" where
  "format_value fmt (PStr s) = s"
| "format_value fmt v = fmt v"

section \<open>Tool schemas\<close>

datatype schema = TaskCategorizerSchema | NoteSynthesizerSchema

text \<open>The class attribute \<open>__name__\<close>.\<close>

fun schema_name :: "schema \<Rightarrow> string" where
  "schema_name TaskCategorizerSchema = ''TaskCategorizerSchema''"
| "schema_name NoteSynthesizerSchema = ''NoteSynthesizerSchema''"

section \<open>The orchestrator's system prompt\<close>

definition SYSTEM_INSTRUCTIONS :: string where
  "SYSTEM_INSTRUCTIONS =
     ''\<newline>'' @
     ''You are the Zero-Based Inbox Processor, a highly specialized Concierge Agent.\<newline>'' @
     ''Your sole purpose is to transform unstructured digital input into highly structured, actionable JSON outputs by strictly adhering to the user's Minimalist Rules.\<newline>'' @
     ''\<newline>'' @
     ''### YOUR MINIMALIST RULES (Non-Negotiable Constraints):\<newline>'' @
     ''1. MAX PRIORITY LIMIT: You must categorize a maximum of 3 tasks as 'high' priority per session. If the input implies more than three, you must intelligently downgrade the less urgent ones to 'medium' or 'low'.\<newline>'' @
     ''2. MANDATORY TAGGING: Every output (task or note) must be assigned exactly ONE context_tag from the following list: '#Work', '#Personal', '#Learning', or '#Finance'.\<newline>'' @
     ''3. NOTE SYNTHESIS LIMIT: Summary bullet points must not exceed 5 items. Be ruthless in your conciseness.\<newline>'' @
     ''\<newline>'' @
     ''### INSTRUCTION FLOW:\<newline>'' @
     ''1. Analyze the input to determine if it is an action (task) or long-form information (note).\<newline>'' @
     ''2. Call the appropriate tool (TaskCategorizerSchema or NoteSynthesizerSchema).\<newline>'' @
     ''3. CRITICAL A2A HAND-OFF: If the NoteSynthesizerSchema returns an 'embedded_task', you MUST process this task separately by calling the TaskCategorizerSchema immediately afterward.\<newline>'' @
     ''4. ONLY output the results from the tool calls. Do not include any conversational filler.\<newline>''"

text \<open>A chat turn is a role and the text of its single part.\<close>

type_synonym turn = "string \<times> string"

text \<open>The history the chat is started with: the instruction turn and its acknowledgment.\<close>

definition chat_history :: "turn list" where
  "chat_history =
     [(''user'', SYSTEM_INSTRUCTIONS),
      (''model'', ''Minimalist rules loaded. Awaiting input.'')]"

section \<open>The generation model as an external collaborator\<close>

record function_call =
  name :: string
  args :: "kwargs option"

record response =
  function_calls :: "function_call list"
  response_text :: "string option"

text \<open>
  Exceptions derived from \<open>Exception\<close>. \<open>APIError\<close> is what the client library raises;
  \<open>TypeError\<close> and \<open>KeyError\<close> are raised by the orchestrator's own statements.
\<close>

datatype pyexc =
    APIError string
  | TypeError string
  | KeyError string
  | OtherException string

text \<open>
  The model object. \<open>send_message\<close> is the method of the chat started from the model: it
  sees the chat's history, the message and the tools of the configuration.
  \<open>generate_content\<close> is the model's own method: it sees a prompt and the tools only.
  Either returns a response or raises.
\<close>

record model =
  send_message :: "turn list \<Rightarrow> string \<Rightarrow> schema list \<Rightarrow> pyexc + response"
  generate_content :: "string \<Rightarrow> schema list \<Rightarrow> pyexc + response"

text \<open>The calls a run makes on the model, with what each one carries.\<close>

datatype gateway_call =
    SendMessage "turn list" string "schema list"
  | GenerateContent string "schema list"

fun prior_turns :: "gateway_call \<Rightarrow> turn list" where
  "prior_turns (SendMessage h p ts) = h"
| "prior_turns (GenerateContent p ts) = []"

fun call_prompt :: "gateway_call \<Rightarrow> string" where
  "call_prompt (SendMessage h p ts) = p"
| "call_prompt (GenerateContent p ts) = p"

fun call_tools :: "gateway_call \<Rightarrow> schema list" where
  "call_tools (SendMessage h p ts) = ts"
| "call_tools (GenerateContent p ts) = ts"

section \<open>Tool execution functions\<close>

text \<open>
  A tool result is the dict \<open>{"tool_used": ..., "task_output": kwargs}\<close> or
  \<open>{"tool_used": ..., "note_output": kwargs}\<close>.
\<close>

datatype tool_result =
    TaskCategorizer (task_output: kwargs)
  | NoteSynthesizer (note_output: kwargs)

fun tool_used :: "tool_result \<Rightarrow> string" where
  "tool_used (TaskCategorizer kw) = ''TaskCategorizer''"
| "tool_used (NoteSynthesizer kw) = ''NoteSynthesizer''"

definition categorize_task :: "kwargs \<Rightarrow> tool_result" where
  "categorize_task kw = TaskCategorizer kw"

definition synthesize_note :: "kwargs \<Rightarrow> tool_result" where
  "synthesize_note kw = NoteSynthesizer kw"

definition TOOL_FUNCTIONS :: "string \<Rightarrow> (kwargs \<Rightarrow> tool_result) option" where
  "TOOL_FUNCTIONS =
     map_of [(schema_name TaskCategorizerSchema, categorize_task),
             (schema_name NoteSynthesizerSchema, synthesize_note)]"

section \<open>The orchestrator\<close>

text \<open>
  The state a run threads through: the list \<open>final_results\<close> and, as the run's effect on
  the outside, the calls made on the model so far. Console output is not modelled.
\<close>

record run_state =
  final_results :: "tool_result list"
  calls :: "gateway_call list"

definition a2a_prompt :: "(pyval \<Rightarrow> string) \<Rightarrow> pyval \<Rightarrow> string" where
  "a2a_prompt fmt embedded_task =
     ''Process this embedded task using the TaskCategorizer: '' @
     format_value fmt embedded_task @
     ''. Remember the minimalist rules.''"

text \<open>
  The hand-off, entered once an embedded task was found. The result is the exception
  raised, if any, and the state reached.
\<close>

definition a2a_handoff ::
  "(pyval \<Rightarrow> string) \<Rightarrow> model \<Rightarrow> pyval \<Rightarrow> run_state \<Rightarrow> pyexc option \<times> run_state" where
  "a2a_handoff fmt m embedded_task st =
     (let a2a_config = [TaskCategorizerSchema];
          prompt = a2a_prompt fmt embedded_task;
          st1 = st\<lparr>calls := calls st @ [GenerateContent prompt a2a_config]\<rparr>
      in case generate_content m prompt a2a_config of
           Inl e \<Rightarrow> (Some e, st1)
         | Inr a2a_response \<Rightarrow>
             (case function_calls a2a_response of
                [] \<Rightarrow> (None, st1)
              | a2a_call # _ \<Rightarrow>
                  (case args a2a_call of
                     None \<Rightarrow> (Some (TypeError ''NoneType object is not iterable''), st1)
                   | Some a2a_args \<Rightarrow>
                       (None, st1\<lparr>final_results :=
                                     final_results st1 @ [categorize_task a2a_args]\<rparr>))))"

text \<open>
  The body of the \<open>try\<close> statement. Every path through the body of the \<open>while\<close> loop ends
  in \<open>break\<close>, so the loop runs its body at most once, on the first function call
  of the response. The test on \<open>response.text\<close> after the loop only prints.
\<close>

definition try_body ::
  "(pyval \<Rightarrow> string) \<Rightarrow> model \<Rightarrow> string \<Rightarrow> pyexc option \<times> run_state" where
  "try_body fmt m raw_input =
     (let config = [TaskCategorizerSchema, NoteSynthesizerSchema];
          st0 = \<lparr>final_results = [], calls = [SendMessage chat_history raw_input config]\<rparr>
      in case send_message m chat_history raw_input config of
           Inl e \<Rightarrow> (Some e, st0)
         | Inr resp \<Rightarrow>
             (case function_calls resp of
                [] \<Rightarrow> (None, st0)
              | fcall # _ \<Rightarrow>
                  (case TOOL_FUNCTIONS (name fcall) of
                     None \<Rightarrow> (None, st0)
                   | Some tool \<Rightarrow>
                       (case args fcall of
                          None \<Rightarrow> (Some (TypeError ''NoneType object is not iterable''), st0)
                        | Some tool_args \<Rightarrow>
                            (let tool_result = tool tool_args;
                                 st1 = st0\<lparr>final_results := final_results st0 @ [tool_result]\<rparr>
                             in if name fcall = schema_name NoteSynthesizerSchema
                                then (case map_of (note_output tool_result) ''embedded_task'' of
                                        None \<Rightarrow> (Some (KeyError ''embedded_task''), st1)
                                      | Some embedded_task \<Rightarrow>
                                          if truthy embedded_task
                                          then a2a_handoff fmt m embedded_task st1
                                          else (None, st1))
                                else (None, st1))))))"

text \<open>The two \<open>except\<close> clauses: each prints and falls through to the \<open>return\<close>.\<close>

fun except_clauses :: "pyexc \<Rightarrow> run_state \<Rightarrow> run_state" where
  "except_clauses (APIError e) st = st"
| "except_clauses e st = st"

definition run :: "(pyval \<Rightarrow> string) \<Rightarrow> model \<Rightarrow> string \<Rightarrow> run_state" where
  "run fmt m raw_input =
     (case try_body fmt m raw_input of
        (None, st) \<Rightarrow> st
      | (Some e, st) \<Rightarrow> except_clauses e st)"

definition process_input_with_orchestrator ::
  "(pyval \<Rightarrow> string) \<Rightarrow> model \<Rightarrow> string \<Rightarrow> tool_result list" where
  "process_input_with_orchestrator fmt m raw_input = final_results (run fmt m raw_input)"

section \<open>The function as its caller sees it\<close>



section \<open>Names for the two calls of a run\<close>

abbreviation both_schemas :: "schema list" where
  "both_schemas \<equiv> [TaskCategorizerSchema, NoteSynthesizerSchema]"

abbreviation primary_call :: "string \<Rightarrow> gateway_call" where
  "primary_call raw \<equiv> SendMessage chat_history raw both_schemas"

abbreviation handoff_call :: "(pyval \<Rightarrow> string) \<Rightarrow> pyval \<Rightarrow> gateway_call" where
  "handoff_call fmt v \<equiv> GenerateContent (a2a_prompt fmt v) [TaskCategorizerSchema]"



text \<open>
  A model that answers as \<open>m\<close> does, with every function call after the first removed
  from each response.
\<close>

definition keep_first_call :: "pyexc + response \<Rightarrow> pyexc + response" where
  "keep_first_call r =
     (case r of
        Inl e \<Rightarrow> Inl e
      | Inr resp \<Rightarrow> Inr (resp\<lparr>function_calls := take 1 (function_calls resp)\<rparr>))"

definition first_calls_only :: "model \<Rightarrow> model" where
  "first_calls_only m =
     \<lparr>send_message = (\<lambda>h p ts. keep_first_call (send_message m h p ts)),
      generate_content = (\<lambda>p ts. keep_first_call (generate_content m p ts))\<rparr>"

section \<open>Concrete models and candidates\<close>

text \<open>A model that gives one fixed answer to the chat and one to the bare prompt.\<close>

definition const_model :: "pyexc + response \<Rightarrow> pyexc + response \<Rightarrow> model" where
  "const_model primary handoff =
     \<lparr>send_message = (\<lambda>h p ts. primary), generate_content = (\<lambda>p ts. handoff)\<rparr>"

definition angle_fmt :: "pyval \<Rightarrow> string" where
  "angle_fmt v = ''<object>''"

definition calls_response :: "function_call list \<Rightarrow> pyexc + response" where
  "calls_response fcs = Inr \<lparr>function_calls = fcs, response_text = None\<rparr>"

definition text_response :: "string \<Rightarrow> pyexc + response" where
  "text_response t = Inr \<lparr>function_calls = [], response_text = Some t\<rparr>"

definition single_call :: "string \<Rightarrow> kwargs \<Rightarrow> pyexc + response" where
  "single_call n kw = calls_response [\<lparr>name = n, args = Some kw\<rparr>]"

text \<open>A task candidate with no \<open>context_tag\<close> and an action outside the four allowed.\<close>

definition untagged_task :: kwargs where
  "untagged_task =
     [(''raw_task_text'', PStr ''Review the Q3 report''), (''action'', PStr ''postpone''),
      (''priority'', PStr ''high'')]"

text \<open>A note candidate with eight summary bullets and no embedded task.\<close>

definition eight_bullets :: "pyval list" where
  "eight_bullets =
     [PStr ''b1'', PStr ''b2'', PStr ''b3'', PStr ''b4'',
      PStr ''b5'', PStr ''b6'', PStr ''b7'', PStr ''b8'']"

definition long_note :: kwargs where
  "long_note =
     [(''original_source'', PStr ''Meeting with John''),
      (''summary_bullets'', PList eight_bullets),
      (''conceptual_tags'', PList [PStr ''RAG Systems'']),
      (''embedded_task'', PNone)]"

text \<open>Note candidates with an embedded task, with an empty one, and with none declared.\<close>

definition note_with_task :: kwargs where
  "note_with_task =
     [(''original_source'', PStr ''Meeting summary''),
      (''summary_bullets'', PList [PStr ''Scaling issues'']),
      (''conceptual_tags'', PList [PStr ''RAG Systems'']),
      (''embedded_task'', PStr ''Follow up on Q3 budget cuts'')]"

definition note_empty_task :: kwargs where
  "note_empty_task =
     [(''original_source'', PStr ''Meeting summary''),
      (''summary_bullets'', PList [PStr ''Scaling issues'']),
      (''conceptual_tags'', PList [PStr ''RAG Systems'']),
      (''embedded_task'', PStr [])]"


definition budget_task :: kwargs where
  "budget_task =
     [(''raw_task_text'', PStr ''Follow up on Q3 budget cuts''), (''action'', PStr ''do''),
      (''priority'', PStr ''high''), (''context_tag'', PStr ''#Finance'')]"

definition task_with_embedded :: kwargs where
  "task_with_embedded =
     [(''raw_task_text'', PStr ''Follow up on Q3 budget cuts''), (''action'', PStr ''delegate''),
      (''priority'', PStr ''medium''), (''context_tag'', PStr ''#Finance''),
      (''embedded_task'', PStr ''Email Jane'')]"

text \<open>
  A model whose answers hold two function calls each: a note and a task to the chat,
  two tasks to the hand-off prompt.
\<close>

definition two_calls_model :: model where
  "two_calls_model =
     const_model
       (calls_response [\<lparr>name = ''NoteSynthesizerSchema'', args = Some note_with_task\<rparr>,
                        \<lparr>name = ''TaskCategorizerSchema'', args = Some untagged_task\<rparr>])
       (calls_response [\<lparr>name = ''TaskCategorizerSchema'', args = Some budget_task\<rparr>,
                        \<lparr>name = ''TaskCategorizerSchema'', args = Some task_with_embedded\<rparr>])"

text \<open>A model whose first function call names no tool and whose second names one.\<close>

definition unknown_first_model :: model where
  "unknown_first_model =
     const_model
       (calls_response [\<lparr>name = ''NoSuchTool'', args = Some budget_task\<rparr>,
                        \<lparr>name = ''TaskCategorizerSchema'', args = Some budget_task\<rparr>])
       (text_response [])"





section \<open>The shapes of a run\<close>

lemma except_clauses_id: "except_clauses e st = st"
  by (cases e) simp_all

lemma run_snd: "run fmt m raw = snd (try_body fmt m raw)"
  by (simp add: run_def except_clauses_id split: prod.splits option.splits)


lemma tool_note: "TOOL_FUNCTIONS ''NoteSynthesizerSchema'' = Some synthesize_note"
  by (simp add: TOOL_FUNCTIONS_def)

lemma tool_some: "TOOL_FUNCTIONS n = Some f \<longleftrightarrow>
   (n = ''TaskCategorizerSchema'' \<and> f = categorize_task) \<or> (n = ''NoteSynthesizerSchema'' \<and> f = synthesize_note)"
  by (auto simp add: TOOL_FUNCTIONS_def)

lemma try_body_primary_raises:
  "send_message m chat_history raw both_schemas = Inl e \<Longrightarrow>
   try_body fmt m raw = (Some e, \<lparr>final_results = [], calls = [primary_call raw]\<rparr>)"
  by (simp add: try_body_def)

lemma try_body_no_function_call:
  "send_message m chat_history raw both_schemas = Inr resp \<Longrightarrow> function_calls resp = [] \<Longrightarrow>
   try_body fmt m raw = (None, \<lparr>final_results = [], calls = [primary_call raw]\<rparr>)"
  by (simp add: try_body_def)



lemma try_body_note_falsy:
  assumes "send_message m chat_history raw both_schemas = Inr resp"
      and "function_calls resp = c # cs"
      and "name c = ''NoteSynthesizerSchema''"
      and "args c = Some kw"
      and "map_of kw ''embedded_task'' = Some v"
      and "\<not> truthy v"
  shows "try_body fmt m raw =
           (None, \<lparr>final_results = [NoteSynthesizer kw], calls = [primary_call raw]\<rparr>)"
  using assms by (simp add: try_body_def tool_note synthesize_note_def)

lemma try_body_note_handoff:
  assumes "send_message m chat_history raw both_schemas = Inr resp"
      and "function_calls resp = c # cs"
      and "name c = ''NoteSynthesizerSchema''"
      and "args c = Some kw"
      and "map_of kw ''embedded_task'' = Some v"
      and "truthy v"
  shows "try_body fmt m raw =
           a2a_handoff fmt m v \<lparr>final_results = [NoteSynthesizer kw], calls = [primary_call raw]\<rparr>"
  using assms by (simp add: try_body_def tool_note synthesize_note_def)

lemma a2a_handoff_raises:
  "generate_content m (a2a_prompt fmt v) [TaskCategorizerSchema] = Inl e \<Longrightarrow>
   a2a_handoff fmt m v st = (Some e, st\<lparr>calls := calls st @ [handoff_call fmt v]\<rparr>)"
  by (simp add: a2a_handoff_def)

lemma a2a_handoff_no_function_call:
  "generate_content m (a2a_prompt fmt v) [TaskCategorizerSchema] = Inr resp \<Longrightarrow>
   function_calls resp = [] \<Longrightarrow>
   a2a_handoff fmt m v st = (None, st\<lparr>calls := calls st @ [handoff_call fmt v]\<rparr>)"
  by (simp add: a2a_handoff_def)

lemma a2a_handoff_recorded:
  "generate_content m (a2a_prompt fmt v) [TaskCategorizerSchema] = Inr resp \<Longrightarrow>
   function_calls resp = c # cs \<Longrightarrow> args c = Some kw \<Longrightarrow>
   a2a_handoff fmt m v st =
     (None, st\<lparr>calls := calls st @ [handoff_call fmt v],
                final_results := final_results st @ [TaskCategorizer kw]\<rparr>)"
  by (simp add: a2a_handoff_def categorize_task_def)

text \<open>Every run has one of five shapes.\<close>

lemma run_shapes:
  "run fmt m raw = \<lparr>final_results = [], calls = [primary_call raw]\<rparr> \<or>
   (\<exists>kw. run fmt m raw = \<lparr>final_results = [TaskCategorizer kw], calls = [primary_call raw]\<rparr>) \<or>
   (\<exists>kw. run fmt m raw = \<lparr>final_results = [NoteSynthesizer kw], calls = [primary_call raw]\<rparr>) \<or>
   (\<exists>kw v. map_of kw ''embedded_task'' = Some v \<and> truthy v \<and>
      run fmt m raw = \<lparr>final_results = [NoteSynthesizer kw],
                         calls = [primary_call raw, handoff_call fmt v]\<rparr>) \<or>
   (\<exists>kw v kw'. map_of kw ''embedded_task'' = Some v \<and> truthy v \<and>
      run fmt m raw = \<lparr>final_results = [NoteSynthesizer kw, TaskCategorizer kw'],
                         calls = [primary_call raw, handoff_call fmt v]\<rparr>)"
  unfolding run_snd try_body_def a2a_handoff_def Let_def
  by (auto simp add: tool_some categorize_task_def synthesize_note_def
       split: sum.splits list.splits option.splits)


lemma process_eq:
  "process_input_with_orchestrator fmt m raw = final_results (snd (try_body fmt m raw))"
  by (simp add: process_input_with_orchestrator_def run_snd)

lemma try_body_note_first:
  assumes "send_message m chat_history raw both_schemas = Inr resp"
      and "function_calls resp = c # cs"
      and "name c = ''NoteSynthesizerSchema''"
      and "args c = Some kw"
  shows "\<exists>rest. final_results (snd (try_body fmt m raw)) = NoteSynthesizer kw # rest"
  using assms unfolding try_body_def a2a_handoff_def Let_def
  by (auto simp add: tool_note categorize_task_def synthesize_note_def
       split: sum.splits list.splits option.splits)


section \<open>The bullet cap\<close>

text \<open>
  Claim C2 says that a note candidate with more than five summary bullets is recorded with
  its first five. The code records the candidate as proposed: a note proposed with eight
  bullets is recorded with all eight.
\<close>

theorem eight_bullets_recorded:
  "map_of (note_output (hd (process_input_with_orchestrator angle_fmt
     (const_model (single_call ''NoteSynthesizerSchema'' long_note) (text_response ''''))
     ''Meeting notes''))) ''summary_bullets''
   = Some (PList [PStr ''b1'', PStr ''b2'', PStr ''b3'', PStr ''b4'',
                  PStr ''b5'', PStr ''b6'', PStr ''b7'', PStr ''b8''])"
  by (simp add: process_eq try_body_def const_model_def single_call_def calls_response_def
        tool_note synthesize_note_def long_note_def eight_bullets_def)

text \<open>
  Claim C2 as amended: for every note candidate, whatever the length of its summary
  bullets, the record placed first in the results carries the candidate's fields as
  proposed, so its \<open>summary_bullets\<close> is the whole candidate sequence in its order.
\<close>

theorem note_bullets_recorded_unchanged:
  assumes "send_message m chat_history raw both_schemas = Inr resp"
      and "function_calls resp = c # cs"
      and "name c = ''NoteSynthesizerSchema''"
      and "args c = Some kw"
  shows "\<exists>rest. process_input_with_orchestrator fmt m raw = NoteSynthesizer kw # rest \<and>
           map_of (note_output (hd (process_input_with_orchestrator fmt m raw))) ''summary_bullets''
             = map_of kw ''summary_bullets''"
  using try_body_note_first [OF assms, of fmt] by (auto simp add: process_eq)

theorem note_bullets_recorded_unchanged_witness:
  "\<exists>rest. process_input_with_orchestrator angle_fmt
      (const_model (single_call ''NoteSynthesizerSchema'' long_note) (text_response ''''))
      ''Meeting notes'' = NoteSynthesizer long_note # rest \<and>
    map_of (note_output (hd (process_input_with_orchestrator angle_fmt
      (const_model (single_call ''NoteSynthesizerSchema'' long_note) (text_response ''''))
      ''Meeting notes''))) ''summary_bullets'' = Some (PList eight_bullets)"
  using note_bullets_recorded_unchanged
    [of "const_model (single_call ''NoteSynthesizerSchema'' long_note) (text_response '''')"
        "''Meeting notes''"
        "\<lparr>function_calls = [\<lparr>name = ''NoteSynthesizerSchema'', args = Some long_note\<rparr>], response_text = None\<rparr>"
        "\<lparr>name = ''NoteSynthesizerSchema'', args = Some long_note\<rparr>" "[]" long_note angle_fmt]
  by (simp add: const_model_def single_call_def calls_response_def long_note_def)

section \<open>Validation of task candidates\<close>





lemma run_note_handoff_recorded:
  assumes "send_message m chat_history raw both_schemas = Inr resp"
      and "function_calls resp = c # cs"
      and "name c = ''NoteSynthesizerSchema''"
      and "args c = Some kw"
      and "map_of kw ''embedded_task'' = Some v"
      and "truthy v"
      and "generate_content m (a2a_prompt fmt v) [TaskCategorizerSchema] = Inr resp'"
      and "function_calls resp' = c' # cs'"
      and "args c' = Some kw'"
  shows "try_body fmt m raw =
           (None, \<lparr>final_results = [NoteSynthesizer kw, TaskCategorizer kw'],
                    calls = [primary_call raw, handoff_call fmt v]\<rparr>)"
  using try_body_note_handoff [OF assms(1-6), of fmt]
        a2a_handoff_recorded [OF assms(7-9),
          of "\<lparr>final_results = [NoteSynthesizer kw], calls = [primary_call raw]\<rparr>"]
  by simp

lemma run_note_handoff_no_call:
  assumes "send_message m chat_history raw both_schemas = Inr resp"
      and "function_calls resp = c # cs"
      and "name c = ''NoteSynthesizerSchema''"
      and "args c = Some kw"
      and "map_of kw ''embedded_task'' = Some v"
      and "truthy v"
      and "generate_content m (a2a_prompt fmt v) [TaskCategorizerSchema] = Inr resp'"
      and "function_calls resp' = []"
  shows "try_body fmt m raw =
           (None, \<lparr>final_results = [NoteSynthesizer kw],
                    calls = [primary_call raw, handoff_call fmt v]\<rparr>)"
  using try_body_note_handoff [OF assms(1-6), of fmt]
        a2a_handoff_no_function_call [OF assms(7-8),
          of "\<lparr>final_results = [NoteSynthesizer kw], calls = [primary_call raw]\<rparr>"]
  by simp

lemma keep_first_call_simps:
  "keep_first_call (Inl e) = Inl e"
  "keep_first_call (Inr resp) = Inr (resp\<lparr>function_calls := take 1 (function_calls resp)\<rparr>)"
  by (simp_all add: keep_first_call_def)

section \<open>The hand-off decision\<close>

text \<open>
  Claim C4 says that the hand-off is attempted exactly when the primary result is a note
  whose embedded task is not null. The code tests the embedded task for truth: a note
  whose embedded task is the empty string, which is not null, gets no hand-off.
\<close>

theorem empty_embedded_task_no_handoff:
  "run angle_fmt
     (const_model (single_call ''NoteSynthesizerSchema'' note_empty_task)
                  (single_call ''TaskCategorizerSchema'' budget_task))
     ''Meeting summary''
   = \<lparr>final_results = [NoteSynthesizer note_empty_task],
      calls = [primary_call ''Meeting summary'']\<rparr> \<and>
   map_of note_empty_task ''embedded_task'' = Some (PStr []) \<and> PStr [] \<noteq> PNone"
  by (simp add: run_snd try_body_def const_model_def single_call_def calls_response_def
        tool_note synthesize_note_def note_empty_task_def)

text \<open>
  Claim C4 as amended: a hand-off call is made if and only if the first recorded result is
  a note whose \<open>embedded_task\<close> field is present and true in Python's sense (not null, not
  empty); and every hand-off call offers the task schema only, with a prompt built from
  that embedded task.
\<close>

theorem handoff_iff_truthy_embedded_task:
  "((\<exists>p ts. GenerateContent p ts \<in> set (calls (run fmt m raw))) \<longleftrightarrow>
    (\<exists>kw rest v. process_input_with_orchestrator fmt m raw = NoteSynthesizer kw # rest \<and>
        map_of kw ''embedded_task'' = Some v \<and> truthy v)) \<and>
   (\<forall>p ts. GenerateContent p ts \<in> set (calls (run fmt m raw)) \<longrightarrow>
      ts = [TaskCategorizerSchema] \<and>
      (\<exists>kw rest v. process_input_with_orchestrator fmt m raw = NoteSynthesizer kw # rest \<and>
         map_of kw ''embedded_task'' = Some v \<and> p = a2a_prompt fmt v))"
  unfolding process_input_with_orchestrator_def run_snd try_body_def a2a_handoff_def Let_def
  by (auto simp add: tool_some categorize_task_def synthesize_note_def
       split: sum.splits list.splits option.splits)

theorem handoff_iff_truthy_embedded_task_witness:
  "GenerateContent
     ''Process this embedded task using the TaskCategorizer: Follow up on Q3 budget cuts. Remember the minimalist rules.''
     [TaskCategorizerSchema]
     \<in> set (calls (run angle_fmt
          (const_model (single_call ''NoteSynthesizerSchema'' note_with_task)
                       (single_call ''TaskCategorizerSchema'' budget_task))
          ''Meeting summary'')) \<and>
   (\<exists>kw rest v. process_input_with_orchestrator angle_fmt
          (const_model (single_call ''NoteSynthesizerSchema'' note_with_task)
                       (single_call ''TaskCategorizerSchema'' budget_task))
          ''Meeting summary'' = NoteSynthesizer kw # rest \<and>
        map_of kw ''embedded_task'' = Some v \<and> truthy v)"
proof -
  let ?m = "const_model (single_call ''NoteSynthesizerSchema'' note_with_task)
                        (single_call ''TaskCategorizerSchema'' budget_task)"
  have a: "GenerateContent
     ''Process this embedded task using the TaskCategorizer: Follow up on Q3 budget cuts. Remember the minimalist rules.''
     [TaskCategorizerSchema] \<in> set (calls (run angle_fmt ?m ''Meeting summary''))"
    by (simp add: run_snd try_body_def a2a_handoff_def a2a_prompt_def const_model_def
          single_call_def calls_response_def tool_note synthesize_note_def note_with_task_def)
  from a handoff_iff_truthy_embedded_task [of angle_fmt ?m "''Meeting summary''"]
  show ?thesis by blast
qed

section \<open>The rules in every call\<close>

lemma newline_in_instructions: "CHR 0x0A \<in> set SYSTEM_INSTRUCTIONS"
  by (simp add: SYSTEM_INSTRUCTIONS_def)

text \<open>
  Claim C5 says that every call on the model, the hand-off included, carries the rule
  instructions as the preamble turn pair. On a note with an embedded task the run makes
  two calls: the first goes through the chat and carries the pair, the second is a bare
  prompt with no prior turns, and the instruction text is no part of that prompt.
\<close>

theorem handoff_call_has_no_rules:
  "calls (run angle_fmt
          (const_model (single_call ''NoteSynthesizerSchema'' note_with_task)
                       (single_call ''TaskCategorizerSchema'' budget_task))
          ''Meeting summary'')
   = [SendMessage chat_history ''Meeting summary'' [TaskCategorizerSchema, NoteSynthesizerSchema],
      GenerateContent
        ''Process this embedded task using the TaskCategorizer: Follow up on Q3 budget cuts. Remember the minimalist rules.''
        [TaskCategorizerSchema]] \<and>
   map prior_turns (calls (run angle_fmt
          (const_model (single_call ''NoteSynthesizerSchema'' note_with_task)
                       (single_call ''TaskCategorizerSchema'' budget_task))
          ''Meeting summary'')) = [chat_history, []] \<and>
   \<not> sublist SYSTEM_INSTRUCTIONS
        ''Process this embedded task using the TaskCategorizer: Follow up on Q3 budget cuts. Remember the minimalist rules.''"
proof (intro conjI)
  let ?m = "const_model (single_call ''NoteSynthesizerSchema'' note_with_task)
                        (single_call ''TaskCategorizerSchema'' budget_task)"
  let ?p = "''Process this embedded task using the TaskCategorizer: Follow up on Q3 budget cuts. Remember the minimalist rules.''"
  show c: "calls (run angle_fmt ?m ''Meeting summary'')
      = [SendMessage chat_history ''Meeting summary'' [TaskCategorizerSchema, NoteSynthesizerSchema],
         GenerateContent ?p [TaskCategorizerSchema]]"
    by (simp add: run_snd try_body_def a2a_handoff_def a2a_prompt_def const_model_def
          single_call_def calls_response_def tool_note synthesize_note_def note_with_task_def
          categorize_task_def)
  show "map prior_turns (calls (run angle_fmt ?m ''Meeting summary'')) = [chat_history, []]"
    by (simp add: c)
  show "\<not> sublist SYSTEM_INSTRUCTIONS ?p"
  proof
    assume "sublist SYSTEM_INSTRUCTIONS ?p"
    then have "set SYSTEM_INSTRUCTIONS \<subseteq> set ?p"
      by (rule set_mono_sublist)
    with newline_in_instructions show False by auto
  qed
qed

section \<open>Failure of a call\<close>

text \<open>
  Claim C6: when a call on the model raises, the run ends there and returns what it had
  recorded. A failure of the primary call gives no results and no hand-off call; a
  failure of the hand-off call gives the primary note alone.
\<close>

theorem gateway_failure_returns_accumulated:
  "(\<forall>e. send_message m chat_history raw both_schemas = Inl e \<longrightarrow>
      run fmt m raw = \<lparr>final_results = [], calls = [primary_call raw]\<rparr> \<and>
      process_input_with_orchestrator fmt m raw = []) \<and>
   (\<forall>resp c cs kw v e.
      send_message m chat_history raw both_schemas = Inr resp \<and>
      function_calls resp = c # cs \<and> name c = ''NoteSynthesizerSchema'' \<and>
      args c = Some kw \<and> map_of kw ''embedded_task'' = Some v \<and> truthy v \<and>
      generate_content m (a2a_prompt fmt v) [TaskCategorizerSchema] = Inl e \<longrightarrow>
      run fmt m raw = \<lparr>final_results = [NoteSynthesizer kw],
                         calls = [primary_call raw, handoff_call fmt v]\<rparr> \<and>
      process_input_with_orchestrator fmt m raw = [NoteSynthesizer kw])"
proof (intro conjI allI impI)
  fix e assume "send_message m chat_history raw both_schemas = Inl e"
  from try_body_primary_raises [OF this, of fmt]
  show "run fmt m raw = \<lparr>final_results = [], calls = [primary_call raw]\<rparr>"
    and "process_input_with_orchestrator fmt m raw = []"
    by (simp_all add: run_snd process_eq)
next
  fix resp c cs kw v e
  assume h: "send_message m chat_history raw both_schemas = Inr resp \<and>
      function_calls resp = c # cs \<and> name c = ''NoteSynthesizerSchema'' \<and>
      args c = Some kw \<and> map_of kw ''embedded_task'' = Some v \<and> truthy v \<and>
      generate_content m (a2a_prompt fmt v) [TaskCategorizerSchema] = Inl e"
  then have "try_body fmt m raw =
      a2a_handoff fmt m v \<lparr>final_results = [NoteSynthesizer kw], calls = [primary_call raw]\<rparr>"
    by (intro try_body_note_handoff) auto
  moreover from h have "a2a_handoff fmt m v \<lparr>final_results = [NoteSynthesizer kw], calls = [primary_call raw]\<rparr>
     = (Some e, \<lparr>final_results = [NoteSynthesizer kw], calls = [primary_call raw]\<rparr>
                  \<lparr>calls := calls \<lparr>final_results = [NoteSynthesizer kw], calls = [primary_call raw]\<rparr> @ [handoff_call fmt v]\<rparr>)"
    by (intro a2a_handoff_raises) auto
  ultimately show "run fmt m raw = \<lparr>final_results = [NoteSynthesizer kw],
                         calls = [primary_call raw, handoff_call fmt v]\<rparr>"
    and "process_input_with_orchestrator fmt m raw = [NoteSynthesizer kw]"
    by (simp_all add: run_snd process_eq)
qed

theorem gateway_failure_returns_accumulated_witness:
  "process_input_with_orchestrator angle_fmt
     (const_model (Inl (APIError ''timeout'')) (single_call ''TaskCategorizerSchema'' budget_task))
     ''Meeting summary'' = [] \<and>
   run angle_fmt
     (const_model (single_call ''NoteSynthesizerSchema'' note_with_task) (Inl (APIError ''timeout'')))
     ''Meeting summary''
   = \<lparr>final_results = [NoteSynthesizer note_with_task],
      calls = [primary_call ''Meeting summary'',
               handoff_call angle_fmt (PStr ''Follow up on Q3 budget cuts'')]\<rparr>"
proof -
  let ?m1 = "const_model (Inl (APIError ''timeout''))
                         (single_call ''TaskCategorizerSchema'' budget_task)"
  let ?m2 = "const_model (single_call ''NoteSynthesizerSchema'' note_with_task)
                         (Inl (APIError ''timeout''))"
  let ?c = "\<lparr>name = ''NoteSynthesizerSchema'', args = Some note_with_task\<rparr>"
  let ?r = "\<lparr>function_calls = [?c], response_text = None\<rparr>"
  have h1: "send_message ?m1 chat_history ''Meeting summary'' both_schemas
              = Inl (APIError ''timeout'')"
    by (simp add: const_model_def)
  have h2: "send_message ?m2 chat_history ''Meeting summary'' both_schemas = Inr ?r \<and>
      function_calls ?r = ?c # [] \<and> name ?c = ''NoteSynthesizerSchema'' \<and>
      args ?c = Some note_with_task \<and>
      map_of note_with_task ''embedded_task'' = Some (PStr ''Follow up on Q3 budget cuts'') \<and>
      truthy (PStr ''Follow up on Q3 budget cuts'') \<and>
      generate_content ?m2 (a2a_prompt angle_fmt (PStr ''Follow up on Q3 budget cuts''))
        [TaskCategorizerSchema] = Inl (APIError ''timeout'')"
    by (simp add: const_model_def single_call_def calls_response_def note_with_task_def)
  from gateway_failure_returns_accumulated [of ?m1 "''Meeting summary''" angle_fmt] h1
  have "process_input_with_orchestrator angle_fmt ?m1 ''Meeting summary'' = []"
    by blast
  moreover from gateway_failure_returns_accumulated [of ?m2 "''Meeting summary''" angle_fmt] h2
  have "run angle_fmt ?m2 ''Meeting summary''
   = \<lparr>final_results = [NoteSynthesizer note_with_task],
      calls = [primary_call ''Meeting summary'',
               handoff_call angle_fmt (PStr ''Follow up on Q3 budget cuts'')]\<rparr>"
    by blast
  ultimately show ?thesis by simp
qed

section \<open>Order of the results and depth of the hand-off\<close>

text \<open>
  Claim C7: the results are listed in the order of the calls, the primary record first and
  the hand-off record after it, and there is at most one hand-off. A run makes either
  the primary call alone and records at most one result, or the primary call followed by
  one hand-off call, and then records the note, followed or not by one task; the task
  recorded by the hand-off is not looked into, even when it has an embedded task itself.
\<close>

theorem results_in_invocation_order:
  "((calls (run fmt m raw) = [primary_call raw] \<and>
       length (process_input_with_orchestrator fmt m raw) \<le> 1) \<or>
    (\<exists>kw v. map_of kw ''embedded_task'' = Some v \<and> truthy v \<and>
       calls (run fmt m raw) = [primary_call raw, handoff_call fmt v] \<and>
       (process_input_with_orchestrator fmt m raw = [NoteSynthesizer kw] \<or>
        (\<exists>kw'. process_input_with_orchestrator fmt m raw =
                  [NoteSynthesizer kw, TaskCategorizer kw'])))) \<and>
   (\<forall>resp c cs kw v resp' c' cs' kw'.
      send_message m chat_history raw both_schemas = Inr resp \<and>
      function_calls resp = c # cs \<and> name c = ''NoteSynthesizerSchema'' \<and>
      args c = Some kw \<and> map_of kw ''embedded_task'' = Some v \<and> truthy v \<and>
      generate_content m (a2a_prompt fmt v) [TaskCategorizerSchema] = Inr resp' \<and>
      function_calls resp' = c' # cs' \<and> args c' = Some kw' \<longrightarrow>
      run fmt m raw = \<lparr>final_results = [NoteSynthesizer kw, TaskCategorizer kw'],
                         calls = [primary_call raw, handoff_call fmt v]\<rparr>)"
proof (intro conjI allI impI)
  show "(calls (run fmt m raw) = [primary_call raw] \<and>
       length (process_input_with_orchestrator fmt m raw) \<le> 1) \<or>
    (\<exists>kw v. map_of kw ''embedded_task'' = Some v \<and> truthy v \<and>
       calls (run fmt m raw) = [primary_call raw, handoff_call fmt v] \<and>
       (process_input_with_orchestrator fmt m raw = [NoteSynthesizer kw] \<or>
        (\<exists>kw'. process_input_with_orchestrator fmt m raw =
                  [NoteSynthesizer kw, TaskCategorizer kw'])))"
    using run_shapes [of fmt m raw]
    unfolding process_input_with_orchestrator_def
    by (elim disjE exE conjE) simp_all
next
  fix resp c cs kw v resp' c' cs' kw'
  assume "send_message m chat_history raw both_schemas = Inr resp \<and>
      function_calls resp = c # cs \<and> name c = ''NoteSynthesizerSchema'' \<and>
      args c = Some kw \<and> map_of kw ''embedded_task'' = Some v \<and> truthy v \<and>
      generate_content m (a2a_prompt fmt v) [TaskCategorizerSchema] = Inr resp' \<and>
      function_calls resp' = c' # cs' \<and> args c' = Some kw'"
  then have "try_body fmt m raw =
           (None, \<lparr>final_results = [NoteSynthesizer kw, TaskCategorizer kw'],
                    calls = [primary_call raw, handoff_call fmt v]\<rparr>)"
    by (intro run_note_handoff_recorded) auto
  then show "run fmt m raw = \<lparr>final_results = [NoteSynthesizer kw, TaskCategorizer kw'],
                         calls = [primary_call raw, handoff_call fmt v]\<rparr>"
    by (simp add: run_snd)
qed

theorem results_in_invocation_order_witness:
  "run angle_fmt
     (const_model (single_call ''NoteSynthesizerSchema'' note_with_task)
                  (single_call ''TaskCategorizerSchema'' task_with_embedded))
     ''Meeting summary''
   = \<lparr>final_results = [NoteSynthesizer note_with_task, TaskCategorizer task_with_embedded],
      calls = [primary_call ''Meeting summary'',
               handoff_call angle_fmt (PStr ''Follow up on Q3 budget cuts'')]\<rparr> \<and>
   map_of task_with_embedded ''embedded_task'' = Some (PStr ''Email Jane'')"
proof -
  let ?m = "const_model (single_call ''NoteSynthesizerSchema'' note_with_task)
                        (single_call ''TaskCategorizerSchema'' task_with_embedded)"
  have h: "send_message ?m chat_history ''Meeting summary'' both_schemas =
             Inr \<lparr>function_calls = [\<lparr>name = ''NoteSynthesizerSchema'', args = Some note_with_task\<rparr>], response_text = None\<rparr> \<and>
      function_calls \<lparr>function_calls = [\<lparr>name = ''NoteSynthesizerSchema'', args = Some note_with_task\<rparr>], response_text = None\<rparr>
         = \<lparr>name = ''NoteSynthesizerSchema'', args = Some note_with_task\<rparr> # [] \<and>
      name \<lparr>name = ''NoteSynthesizerSchema'', args = Some note_with_task\<rparr> = ''NoteSynthesizerSchema'' \<and>
      args \<lparr>name = ''NoteSynthesizerSchema'', args = Some note_with_task\<rparr> = Some note_with_task \<and>
      map_of note_with_task ''embedded_task'' = Some (PStr ''Follow up on Q3 budget cuts'') \<and>
      truthy (PStr ''Follow up on Q3 budget cuts'') \<and>
      generate_content ?m (a2a_prompt angle_fmt (PStr ''Follow up on Q3 budget cuts'')) [TaskCategorizerSchema]
        = Inr \<lparr>function_calls = [\<lparr>name = ''TaskCategorizerSchema'', args = Some task_with_embedded\<rparr>], response_text = None\<rparr> \<and>
      function_calls \<lparr>function_calls = [\<lparr>name = ''TaskCategorizerSchema'', args = Some task_with_embedded\<rparr>], response_text = None\<rparr>
         = \<lparr>name = ''TaskCategorizerSchema'', args = Some task_with_embedded\<rparr> # [] \<and>
      args \<lparr>name = ''TaskCategorizerSchema'', args = Some task_with_embedded\<rparr> = Some task_with_embedded"
    by (simp add: const_model_def single_call_def calls_response_def note_with_task_def)
  have e: "map_of task_with_embedded ''embedded_task'' = Some (PStr ''Email Jane'')"
    by (simp add: task_with_embedded_def)
  from results_in_invocation_order [of angle_fmt ?m "''Meeting summary''"] h e
  show ?thesis by blast
qed

section \<open>A hand-off that selects nothing or another schema\<close>

text \<open>
  Claim C8 says that a hand-off answer naming another schema than the task schema, or
  holding no function call, appends nothing. The code does not look at the name of the
  hand-off's function call: an answer naming the note schema is recorded as a task.
\<close>

theorem wrong_schema_handoff_recorded:
  "process_input_with_orchestrator angle_fmt
     (const_model (single_call ''NoteSynthesizerSchema'' note_with_task)
                  (single_call ''NoteSynthesizerSchema'' long_note))
     ''Meeting summary''
   = [NoteSynthesizer note_with_task, TaskCategorizer long_note]"
  by (simp add: process_eq try_body_def a2a_handoff_def const_model_def single_call_def
        calls_response_def tool_note synthesize_note_def categorize_task_def note_with_task_def)

text \<open>
  Claim C8 as amended: if the hand-off answer holds no function call, nothing is appended
  and the result is the primary note alone; if it holds a function call with arguments,
  whatever its name, these arguments are recorded as a task after the primary note, which
  is left as it was.
\<close>

theorem handoff_without_call_keeps_primary:
  assumes "send_message m chat_history raw both_schemas = Inr resp"
      and "function_calls resp = c # cs"
      and "name c = ''NoteSynthesizerSchema''"
      and "args c = Some kw"
      and "map_of kw ''embedded_task'' = Some v"
      and "truthy v"
      and "generate_content m (a2a_prompt fmt v) [TaskCategorizerSchema] = Inr resp'"
  shows "(function_calls resp' = [] \<longrightarrow>
            process_input_with_orchestrator fmt m raw = [NoteSynthesizer kw]) \<and>
         (\<forall>c' cs' kw'. function_calls resp' = c' # cs' \<and> args c' = Some kw' \<longrightarrow>
            process_input_with_orchestrator fmt m raw =
              [NoteSynthesizer kw, TaskCategorizer kw'])"
proof (intro conjI allI impI)
  assume "function_calls resp' = []"
  from run_note_handoff_no_call [OF assms this]
  show "process_input_with_orchestrator fmt m raw = [NoteSynthesizer kw]"
    by (simp add: process_eq)
next
  fix c' cs' kw'
  assume "function_calls resp' = c' # cs' \<and> args c' = Some kw'"
  then have "function_calls resp' = c' # cs'" and "args c' = Some kw'" by simp_all
  from run_note_handoff_recorded [OF assms this]
  show "process_input_with_orchestrator fmt m raw = [NoteSynthesizer kw, TaskCategorizer kw']"
    by (simp add: process_eq)
qed

theorem handoff_without_call_keeps_primary_witness:
  "process_input_with_orchestrator angle_fmt
     (const_model (single_call ''NoteSynthesizerSchema'' note_with_task)
                  (text_response ''I could not categorize this.''))
     ''Meeting summary'' = [NoteSynthesizer note_with_task]"
  using handoff_without_call_keeps_primary
    [of "const_model (single_call ''NoteSynthesizerSchema'' note_with_task)
                     (text_response ''I could not categorize this.'')"
        "''Meeting summary''"
        "\<lparr>function_calls = [\<lparr>name = ''NoteSynthesizerSchema'', args = Some note_with_task\<rparr>], response_text = None\<rparr>"
        "\<lparr>name = ''NoteSynthesizerSchema'', args = Some note_with_task\<rparr>" "[]" note_with_task
        "PStr ''Follow up on Q3 budget cuts''" angle_fmt
        "\<lparr>function_calls = [], response_text = Some ''I could not categorize this.''\<rparr>"]
  by (simp add: const_model_def single_call_def calls_response_def text_response_def
        note_with_task_def)




lemma try_body_unknown_tool:
  assumes "send_message m chat_history raw both_schemas = Inr resp"
      and "function_calls resp = c # cs"
      and "TOOL_FUNCTIONS (name c) = None"
  shows "try_body fmt m raw = (None, \<lparr>final_results = [], calls = [primary_call raw]\<rparr>)"
  using assms by (simp add: try_body_def)



lemma try_body_tool_first_pinned:
  assumes "send_message m chat_history raw both_schemas = Inr resp"
      and "function_calls resp = c # cs"
      and "TOOL_FUNCTIONS (name c) = Some tool"
      and "args c = Some kw"
  shows "final_results (snd (try_body fmt m raw)) = [tool kw] \<or>
         (\<exists>v resp' c' cs' kw'. name c = ''NoteSynthesizerSchema'' \<and>
            map_of kw ''embedded_task'' = Some v \<and> truthy v \<and>
            generate_content m (a2a_prompt fmt v) [TaskCategorizerSchema] = Inr resp' \<and>
            function_calls resp' = c' # cs' \<and> args c' = Some kw' \<and>
            final_results (snd (try_body fmt m raw)) = [tool kw, categorize_task kw'])"
  using assms unfolding try_body_def a2a_handoff_def Let_def
  by (auto simp add: tool_some categorize_task_def synthesize_note_def
       split: sum.splits list.splits option.splits)

section \<open>The high-priority budget\<close>



section \<open>Exceptions and the caller\<close>





section \<open>Only the first function call of a response\<close>

text \<open>
  Claim C10: of the function calls of a response only the first is executed and
  recorded. When the first call of the primary answer names a tool, the results begin
  with that tool applied to its arguments, and a second result, if any, is the first
  call of the hand-off answer; when it names no tool, nothing is recorded, whatever
  follows it; the hand-off records the first call of its answer. Removing every later
  function call from the model's answers changes neither the results nor the calls
  made, and a run never records more results than it made calls.
\<close>

theorem only_first_function_call_used:
  "run fmt (first_calls_only m) raw = run fmt m raw \<and>
   length (final_results (run fmt m raw)) \<le> length (calls (run fmt m raw)) \<and>
   (\<forall>resp c cs tool kw.
      send_message m chat_history raw both_schemas = Inr resp \<and>
      function_calls resp = c # cs \<and> TOOL_FUNCTIONS (name c) = Some tool \<and>
      args c = Some kw \<longrightarrow>
      process_input_with_orchestrator fmt m raw = [tool kw] \<or>
      (\<exists>v resp' c' cs' kw'. name c = ''NoteSynthesizerSchema'' \<and>
         map_of kw ''embedded_task'' = Some v \<and> truthy v \<and>
         generate_content m (a2a_prompt fmt v) [TaskCategorizerSchema] = Inr resp' \<and>
         function_calls resp' = c' # cs' \<and> args c' = Some kw' \<and>
         process_input_with_orchestrator fmt m raw = [tool kw, categorize_task kw'])) \<and>
   (\<forall>resp c cs.
      send_message m chat_history raw both_schemas = Inr resp \<and>
      function_calls resp = c # cs \<and> TOOL_FUNCTIONS (name c) = None \<longrightarrow>
      process_input_with_orchestrator fmt m raw = []) \<and>
   (\<forall>resp c cs kw v resp' c' cs' kw'.
      send_message m chat_history raw both_schemas = Inr resp \<and>
      function_calls resp = c # cs \<and> name c = ''NoteSynthesizerSchema'' \<and>
      args c = Some kw \<and> map_of kw ''embedded_task'' = Some v \<and> truthy v \<and>
      generate_content m (a2a_prompt fmt v) [TaskCategorizerSchema] = Inr resp' \<and>
      function_calls resp' = c' # cs' \<and> args c' = Some kw' \<longrightarrow>
      process_input_with_orchestrator fmt m raw = [synthesize_note kw, categorize_task kw'])"
proof (intro conjI allI impI)
  show "run fmt (first_calls_only m) raw = run fmt m raw"
    unfolding run_snd try_body_def a2a_handoff_def Let_def first_calls_only_def
    by (auto simp add: keep_first_call_simps split: sum.splits list.splits option.splits)
next
  show "length (final_results (run fmt m raw)) \<le> length (calls (run fmt m raw))"
    using run_shapes [of fmt m raw] by (elim disjE exE conjE) simp_all
next
  fix resp c cs tool kw
  assume "send_message m chat_history raw both_schemas = Inr resp \<and>
      function_calls resp = c # cs \<and> TOOL_FUNCTIONS (name c) = Some tool \<and>
      args c = Some kw"
  then have h: "send_message m chat_history raw both_schemas = Inr resp"
      "function_calls resp = c # cs" "TOOL_FUNCTIONS (name c) = Some tool" "args c = Some kw"
    by simp_all
  from try_body_tool_first_pinned [OF h, of fmt]
  show "process_input_with_orchestrator fmt m raw = [tool kw] \<or>
      (\<exists>v resp' c' cs' kw'. name c = ''NoteSynthesizerSchema'' \<and>
         map_of kw ''embedded_task'' = Some v \<and> truthy v \<and>
         generate_content m (a2a_prompt fmt v) [TaskCategorizerSchema] = Inr resp' \<and>
         function_calls resp' = c' # cs' \<and> args c' = Some kw' \<and>
         process_input_with_orchestrator fmt m raw = [tool kw, categorize_task kw'])"
    by (simp add: process_eq)
next
  fix resp c cs
  assume "send_message m chat_history raw both_schemas = Inr resp \<and>
      function_calls resp = c # cs \<and> TOOL_FUNCTIONS (name c) = None"
  then have "try_body fmt m raw = (None, \<lparr>final_results = [], calls = [primary_call raw]\<rparr>)"
    by (intro try_body_unknown_tool) auto
  then show "process_input_with_orchestrator fmt m raw = []"
    by (simp add: process_eq)
next
  fix resp c cs kw v resp' c' cs' kw'
  assume "send_message m chat_history raw both_schemas = Inr resp \<and>
      function_calls resp = c # cs \<and> name c = ''NoteSynthesizerSchema'' \<and>
      args c = Some kw \<and> map_of kw ''embedded_task'' = Some v \<and> truthy v \<and>
      generate_content m (a2a_prompt fmt v) [TaskCategorizerSchema] = Inr resp' \<and>
      function_calls resp' = c' # cs' \<and> args c' = Some kw'"
  then have "try_body fmt m raw =
           (None, \<lparr>final_results = [NoteSynthesizer kw, TaskCategorizer kw'],
                    calls = [primary_call raw, handoff_call fmt v]\<rparr>)"
    by (intro run_note_handoff_recorded) auto
  then show "process_input_with_orchestrator fmt m raw = [synthesize_note kw, categorize_task kw']"
    by (simp add: process_eq synthesize_note_def categorize_task_def)
qed

theorem only_first_function_call_used_witness:
  "process_input_with_orchestrator angle_fmt two_calls_model ''Meeting summary''
     = [NoteSynthesizer note_with_task, TaskCategorizer budget_task] \<and>
   process_input_with_orchestrator angle_fmt unknown_first_model ''Budget'' = [] \<and>
   run angle_fmt (first_calls_only two_calls_model) ''Meeting summary''
     = run angle_fmt two_calls_model ''Meeting summary''"
proof -
  let ?v = "PStr ''Follow up on Q3 budget cuts''"
  let ?c = "\<lparr>name = ''NoteSynthesizerSchema'', args = Some note_with_task\<rparr>"
  let ?d = "\<lparr>name = ''TaskCategorizerSchema'', args = Some untagged_task\<rparr>"
  let ?r = "\<lparr>function_calls = [?c, ?d], response_text = None\<rparr>"
  let ?c' = "\<lparr>name = ''TaskCategorizerSchema'', args = Some budget_task\<rparr>"
  let ?d' = "\<lparr>name = ''TaskCategorizerSchema'', args = Some task_with_embedded\<rparr>"
  let ?r' = "\<lparr>function_calls = [?c', ?d'], response_text = None\<rparr>"
  let ?u = "\<lparr>name = ''NoSuchTool'', args = Some budget_task\<rparr>"
  let ?ru = "\<lparr>function_calls = [?u, ?c'], response_text = None\<rparr>"
  have h: "send_message two_calls_model chat_history ''Meeting summary'' both_schemas = Inr ?r \<and>
      function_calls ?r = ?c # [?d] \<and> name ?c = ''NoteSynthesizerSchema'' \<and>
      args ?c = Some note_with_task \<and> map_of note_with_task ''embedded_task'' = Some ?v \<and>
      truthy ?v \<and>
      generate_content two_calls_model (a2a_prompt angle_fmt ?v) [TaskCategorizerSchema] = Inr ?r' \<and>
      function_calls ?r' = ?c' # [?d'] \<and> args ?c' = Some budget_task"
    by (simp add: two_calls_model_def const_model_def calls_response_def note_with_task_def)
  have hu: "send_message unknown_first_model chat_history ''Budget'' both_schemas = Inr ?ru \<and>
      function_calls ?ru = ?u # [?c'] \<and> TOOL_FUNCTIONS (name ?u) = None"
    by (simp add: unknown_first_model_def const_model_def calls_response_def TOOL_FUNCTIONS_def)
  from only_first_function_call_used [of angle_fmt two_calls_model "''Meeting summary''"] h
  have a: "process_input_with_orchestrator angle_fmt two_calls_model ''Meeting summary''
     = [synthesize_note note_with_task, categorize_task budget_task]"
    and c: "run angle_fmt (first_calls_only two_calls_model) ''Meeting summary''
     = run angle_fmt two_calls_model ''Meeting summary''"
    by blast+
  from only_first_function_call_used [of angle_fmt unknown_first_model "''Budget''"] hu
  have b: "process_input_with_orchestrator angle_fmt unknown_first_model ''Budget'' = []"
    by blast
  from a b c show ?thesis by (simp add: synthesize_note_def categorize_task_def)
qed

end
